theory Spec2Isabelle
  imports Complex_Main
begin

section \<open>Python values\<close>

text \<open>
  Python floats (and the numpy float64 values the data frames hold) are modelled by the
  real numbers: every formula below is the source's formula read in exact arithmetic, so
  rounding is not part of the model. Strings are byte strings.
\<close>

datatype error =
    ZeroDivisionError
  | ValueError
  | CalculationError  \<comment> \<open>\<^verbatim>\<open>flood_damage_library.utils.exceptions.CalculationError\<close>\<close>
  | FitError          \<comment> \<open>an exception raised inside \<^verbatim>\<open>scipy.stats.genextreme.fit\<close>\<close>

text \<open>
  The outcome of the event-probability method: a finite float, or the outcome of raising
  0.0 to a negative power. The latter depends on how the count is held: for a numpy count
  (as the data frame gives it) the power is \<open>inf\<close> with a warning and the method returns
  \<open>-inf\<close>; for a Python int count the power raises \<^verbatim>\<open>ZeroDivisionError\<close>.
\<close>

datatype probability_result = Finite real | ZeroToNegativePower

text \<open>
  \<^verbatim>\<open>str.lower()\<close> on the ASCII letters; a \<^typ>\<open>char\<close> is a byte, and the bytes of
  a letter outside ASCII are left as they are (Python lower-cases those letters too).
\<close>

definition char_lower :: "char \<Rightarrow> char" where
  "char_lower c =
     (let n = (of_char c :: nat) in if 65 \<le> n \<and> n \<le> 90 then char_of (n + 32) else c)"

definition lower :: "string \<Rightarrow> string" where
  "lower s = map char_lower s"

text \<open>\<^verbatim>\<open>sub in s\<close> for strings: \<open>sub\<close> occurs in \<open>s\<close> as a contiguous run.\<close>

fun str_contains :: "string \<Rightarrow> string \<Rightarrow> bool" where
  "str_contains sub [] = (sub = [])"
| "str_contains sub (c # cs) = (take (length sub) (c # cs) = sub \<or> str_contains sub cs)"

section \<open>climate\_probability.py: ClimateEventAnalyzer\<close>

text \<open>
  The historical data frame: which of the three columns it has, and its rows. A row
  holds the calendar month of its date (\<^verbatim>\<open>df['date'].dt.month\<close>, 1 to 12), the
  rainfall in mm and the event label (\<open>None\<close> for a missing value, which
  \<^verbatim>\<open>value_counts\<close> drops).
\<close>

record climate_row =
  date_month :: nat
  rainfall :: real
  event_label :: "string option"

record history_frame =
  has_date :: bool
  has_rainfall :: bool
  has_event_type :: bool
  frame_rows :: "climate_row list"

record analyzer =
  historical_data :: "history_frame option"
  event_counts :: "string \<rightharpoonup> nat"
  total_days :: nat

text \<open>The class constant \<^verbatim>\<open>THRESHOLDS\<close> (mm of rain per day).\<close>

definition threshold_heavy_rainfall :: real where
  "threshold_heavy_rainfall = 100"

definition threshold_extreme_rainfall :: real where
  "threshold_extreme_rainfall = 200"

definition threshold_flood_rainfall :: real where
  "threshold_flood_rainfall = 150"

text \<open>\<^verbatim>\<open>(frame['rainfall'] >= t).sum()\<close>\<close>

definition rainfall_days :: "real \<Rightarrow> climate_row list \<Rightarrow> nat" where
  "rainfall_days t rs = length (filter (\<lambda>r. t \<le> rainfall r) rs)"

text \<open>
  \<^verbatim>\<open>Series.value_counts()\<close>: every distinct value that is present, with the number
  of rows holding it. The loop that consumes the table only adds counts, so the order of
  the table does not matter.
\<close>

definition value_counts :: "string option list \<Rightarrow> (string \<times> nat) list" where
  "value_counts col =
     (let vs = concat (map (\<lambda>v. case v of None \<Rightarrow> [] | Some s \<Rightarrow> [s]) col)
      in map (\<lambda>v. (v, count_list vs v)) (remdups vs))"

text \<open>
  The loop over the value counts in \<^verbatim>\<open>_process_historical_data\<close>; \<open>event_counts\<close>
  is a \<^verbatim>\<open>defaultdict(int)\<close>, so a key that is absent counts from 0.
\<close>

fun add_event_type_counts :: "(string \<times> nat) list \<Rightarrow> (string \<rightharpoonup> nat) \<Rightarrow> (string \<rightharpoonup> nat)" where
  "add_event_type_counts [] counts = counts"
| "add_event_type_counts ((event, n) # rest) counts =
     add_event_type_counts rest
       (if event \<noteq> [] \<and> lower event \<noteq> ''none'' then
          (let event_lower = lower event in
           if str_contains ''flood'' event_lower \<or> str_contains ''rainfall'' event_lower
              \<or> str_contains ''rain'' event_lower
           then counts(event_lower \<mapsto> (case counts event_lower of None \<Rightarrow> 0 | Some c \<Rightarrow> c) + n)
           else counts)
        else counts)"

definition process_historical_data :: "analyzer \<Rightarrow> analyzer" where
  "process_historical_data self =
     (case historical_data self of
        None \<Rightarrow> self
      | Some df \<Rightarrow>
          if frame_rows df = [] then self
          else
            (let rs = frame_rows df;
                 s1 = self\<lparr>total_days := length rs\<rparr>;
                 s2 = (if has_rainfall df
                       then s1\<lparr>event_counts := (event_counts s1)
                              (''heavy_rainfall'' \<mapsto> rainfall_days threshold_heavy_rainfall rs,
                               ''extreme_rainfall'' \<mapsto> rainfall_days threshold_extreme_rainfall rs,
                               ''flood'' \<mapsto> rainfall_days threshold_flood_rainfall rs)\<rparr>
                       else s1)
             in if has_event_type df
                then s2\<lparr>event_counts :=
                       add_event_type_counts (value_counts (map event_label rs)) (event_counts s2)\<rparr>
                else s2))"

text \<open>\<^verbatim>\<open>ClimateEventAnalyzer.__init__\<close>\<close>

definition analyzer_init :: "history_frame option \<Rightarrow> analyzer" where
  "analyzer_init data =
     process_historical_data
       \<lparr>historical_data = data, event_counts = Map.empty, total_days = 0\<rparr>"

text \<open>
  \<^verbatim>\<open>calculate_event_probability(self, event_type, time_window=365)\<close>. The window is
  a Python int. \<^verbatim>\<open>x ** w\<close> is \<^term>\<open>power_int\<close>, except for the base 0 (a count equal
  to \<open>total_days\<close>) with a negative window, which is \<^term>\<open>ZeroToNegativePower\<close>.
\<close>

definition recorded_count :: "analyzer \<Rightarrow> string \<Rightarrow> nat" where
  \<comment> \<open>\<^verbatim>\<open>self.event_counts.get(event_type.lower(), 0)\<close>\<close>
  "recorded_count self event_type =
     (case event_counts self (lower event_type) of None \<Rightarrow> 0 | Some c \<Rightarrow> c)"

definition calculate_event_probability :: "analyzer \<Rightarrow> string \<Rightarrow> int \<Rightarrow> probability_result" where
  "calculate_event_probability self event_type time_window =
     (if total_days self = 0 then Finite 0
      else
        (let event_count = recorded_count self event_type;
             daily_probability = real event_count / real (total_days self)
         in if 1 - daily_probability = 0 \<and> time_window < 0 then ZeroToNegativePower
            else
              (let probability_no_events = power_int (1 - daily_probability) time_window;
                   probability_at_least_one = 1 - probability_no_events
               in Finite (min probability_at_least_one 1))))"

text \<open>The local table \<^verbatim>\<open>season_months\<close> of \<^verbatim>\<open>get_seasonal_probability\<close>.\<close>

definition season_months :: "string \<rightharpoonup> nat list" where
  "season_months =
     [''northeast_monsoon'' \<mapsto> [11, 12, 1, 2, 3],
      ''southwest_monsoon'' \<mapsto> [5, 6, 7, 8, 9],
      ''inter_monsoon'' \<mapsto> [4, 10]]"

text \<open>
  \<^verbatim>\<open>get_seasonal_probability(self, event_type, season)\<close>: an unknown season raises
  \<^verbatim>\<open>ValueError\<close>; the event type is compared as given (not lower-cased).
\<close>

definition season_event_count :: "history_frame \<Rightarrow> string \<Rightarrow> climate_row list \<Rightarrow> nat" where
  "season_event_count df event_type season_data =
     (if has_rainfall df then
        (if event_type = ''heavy_rainfall'' then rainfall_days threshold_heavy_rainfall season_data
         else if event_type = ''extreme_rainfall'' then rainfall_days threshold_extreme_rainfall season_data
         else if event_type = ''flood'' then rainfall_days threshold_flood_rainfall season_data
         else 0)
      else 0)"

definition get_seasonal_probability :: "analyzer \<Rightarrow> string \<Rightarrow> string \<Rightarrow> error + real" where
  "get_seasonal_probability self event_type season =
     (case historical_data self of
        None \<Rightarrow> Inr 0
      | Some df \<Rightarrow>
          if \<not> has_date df then Inr 0
          else
            (case season_months season of
               None \<Rightarrow> Inl ValueError
             | Some months \<Rightarrow>
                 (let season_data = filter (\<lambda>r. date_month r \<in> set months) (frame_rows df)
                  in if season_data = [] then Inr 0
                     else Inr (real (season_event_count df event_type season_data)
                               / real (length season_data)))))"

text \<open>
  A two-day record, both days in January (inside the north-east monsoon), with 200 mm and
  0 mm of rain and no event-type column.
\<close>

definition winter_frame :: history_frame where
  "winter_frame =
     \<lparr>has_date = True, has_rainfall = True, has_event_type = False,
      frame_rows = [\<lparr>date_month = 1, rainfall = 200, event_label = None\<rparr>,
                    \<lparr>date_month = 1, rainfall = 0, event_label = None\<rparr>]\<rparr>"

section \<open>backend/climate\_probability\_climada.py\<close>

subsection \<open>ClimadaAPIClient.get\_flood\_hazard\_malaysia\<close>

text \<open>A row of the hazard data frame; the fields are its columns.\<close>

record hazard_row =
  location :: string
  latitude :: real
  longitude :: real
  location_type :: string
  return_period :: int
  flood_intensity_m :: real
  annual_probability :: real
  scenario :: string
  data_source :: string

definition locations :: "(string \<times> real \<times> real \<times> string) list" where
  "locations =
     [(''Malaysia (Country)'', 4.2105, 101.9758, ''country''),
      (''Selangor'', 3.0738, 101.5183, ''state''),
      (''Johor'', 1.4854, 103.7618, ''state''),
      (''Kelantan'', 6.1256, 102.2381, ''state''),
      (''Terengganu'', 5.3117, 103.1324, ''state''),
      (''Pahang'', 3.8126, 103.3256, ''state''),
      (''Perak'', 4.5921, 101.0901, ''state''),
      (''Penang'', 5.4164, 100.3327, ''state''),
      (''Sabah'', 5.9788, 116.0753, ''state''),
      (''Sarawak'', 1.5533, 110.3593, ''state'')]"

text \<open>The \<^verbatim>\<open>if loc_type == 'country' ... elif location == ...\<close> chain.\<close>

definition location_adjusted :: "string \<Rightarrow> string \<Rightarrow> real \<Rightarrow> real" where
  "location_adjusted name loc_type intensity =
     (if loc_type = ''country'' then intensity * 0.85
      else if name = ''Kelantan'' then intensity * 1.35
      else if name = ''Terengganu'' then intensity * 1.30
      else if name = ''Pahang'' then intensity * 1.25
      else if name = ''Johor'' then intensity * 1.15
      else if name = ''Selangor'' then intensity * 1.10
      else if name = ''Perak'' then intensity * 1.05
      else if name \<in> set [''Penang'', ''Sabah'', ''Sarawak''] then intensity * 1.00
      else intensity)"

text \<open>The dictionary of scenario factors, read with \<^verbatim>\<open>.get(scenario, 1.0)\<close>.\<close>

definition scenario_factor :: "string \<Rightarrow> real" where
  "scenario_factor scen =
     (case map_of [(''historical'', 1.0), (''rcp26'', 1.1), (''rcp45'', 1.25),
                   (''rcp60'', 1.35), (''rcp85'', 1.5)] scen of
        None \<Rightarrow> 1.0
      | Some f \<Rightarrow> f)"

text \<open>
  The value of \<open>intensity\<close> after the scenario factor and before the floor, for a
  return period \<open>rp\<close> and the draw \<open>z\<close> of \<^verbatim>\<open>np.random.normal(0, 0.2)\<close>.
\<close>

definition simulated_intensity :: "string \<Rightarrow> string \<Rightarrow> string \<Rightarrow> int \<Rightarrow> real \<Rightarrow> real" where
  "simulated_intensity scen name loc_type rp z =
     (let base_intensity = log 10 (real_of_int rp) * 0.5;
          intensity = base_intensity + z;
          intensity = location_adjusted name loc_type intensity;
          intensity = intensity * scenario_factor scen
      in intensity)"

text \<open>
  The record appended for one location and one return period. For a negative return
  period \<^verbatim>\<open>np.log10\<close> gives \<open>nan\<close>, and \<^verbatim>\<open>max(0.1, nan)\<close> is 0.1.
\<close>

definition hazard_entry :: "string \<Rightarrow> string \<times> real \<times> real \<times> string \<Rightarrow> int \<Rightarrow> real \<Rightarrow> hazard_row" where
  "hazard_entry scen loc rp z =
     (case loc of (name, lat, lon, loc_type) \<Rightarrow>
        \<lparr>location = name, latitude = lat, longitude = lon, location_type = loc_type,
         return_period = rp,
         flood_intensity_m =
           (if rp < 0 then 0.1 else max 0.1 (simulated_intensity scen name loc_type rp z)),
         annual_probability = 1 / real_of_int rp,
         scenario = scen, data_source = ''CLIMADA-simulated''\<rparr>)"

text \<open>
  \<^verbatim>\<open>get_flood_hazard_malaysia(self, scenario, return_periods)\<close>. The two nested loops
  visit the pairs of \<^term>\<open>List.product locations return_periods\<close> in order; \<open>noise k\<close> is
  the \<open>k\<close>-th draw of the random generator in this call. A return period 0 raises at
  \<^verbatim>\<open>1.0 / rp\<close>.
\<close>

definition get_flood_hazard_malaysia ::
  "(nat \<Rightarrow> real) \<Rightarrow> string \<Rightarrow> int list \<Rightarrow> error + hazard_row list" where
  "get_flood_hazard_malaysia noise scen return_periods =
     (if 0 \<in> set return_periods then Inl ZeroDivisionError
      else Inr (map (\<lambda>(k, loc, rp). hazard_entry scen loc rp (noise k))
                  (enumerate 0 (List.product locations return_periods))))"

subsection \<open>ClimadaFloodAnalyzer.calculate\_expected\_annual\_impact\<close>

record exposure =
  country :: string
  country_code :: string
  total_exposure_usd :: real
  population :: real
  flood_exposure_ratio :: real

definition get_exposure_litpop :: "string \<Rightarrow> exposure" where
  "get_exposure_litpop code =
     \<lparr>country = ''Malaysia'', country_code = code, total_exposure_usd = 350000000000,
      population = 33000000, flood_exposure_ratio = 0.15\<rparr>"

record climada_analyzer =
  hazard_data :: "hazard_row list option"
  exposure_data :: "exposure option"
  use_isimip :: bool

record impact_entry =
  imp_return_period :: int
  probability :: real
  imp_flood_intensity_m :: real
  damage_ratio :: real
  impact_usd :: real

record eai_result =
  eai_location :: string
  expected_annual_impact_usd :: real
  exposure_usd :: real
  eai_ratio :: real
  return_period_impacts :: "impact_entry list"

text \<open>\<^verbatim>\<open>state_exposure_ratios.get(location, 0.04)\<close>\<close>

definition state_exposure_ratio :: "string \<Rightarrow> real" where
  "state_exposure_ratio name =
     (case map_of [(''Selangor'', 0.28), (''Johor'', 0.14), (''Penang'', 0.09),
                   (''Sarawak'', 0.10), (''Sabah'', 0.08), (''Perak'', 0.08),
                   (''Pahang'', 0.08), (''Kelantan'', 0.06), (''Terengganu'', 0.05)] name of
        None \<Rightarrow> 0.04
      | Some r \<Rightarrow> r)"

definition location_exposure :: "real \<Rightarrow> string \<Rightarrow> real" where
  "location_exposure total_exposure name =
     (if name = ''Malaysia (Country)'' then total_exposure
      else total_exposure * state_exposure_ratio name)"

text \<open>The body of the loop over the rows of the location, and the loop.\<close>

definition impact_of :: "real \<Rightarrow> hazard_row \<Rightarrow> impact_entry" where
  "impact_of loc_exposure row =
     (let intensity = flood_intensity_m row;
          ratio = min 1 (intensity / 3);
          impact = loc_exposure * ratio
      in \<lparr>imp_return_period = return_period row, probability = annual_probability row,
          imp_flood_intensity_m = intensity, damage_ratio = ratio, impact_usd = impact\<rparr>)"

fun eai_loop :: "real \<Rightarrow> hazard_row list \<Rightarrow> real \<times> impact_entry list \<Rightarrow> real \<times> impact_entry list" where
  "eai_loop loc_exposure [] (eai, impacts) = (eai, impacts)"
| "eai_loop loc_exposure (row # rows) (eai, impacts) =
     (let i = impact_of loc_exposure row
      in eai_loop loc_exposure rows (eai + probability i * impact_usd i, impacts @ [i]))"

text \<open>
  \<^verbatim>\<open>calculate_expected_annual_impact(self, location)\<close>. When \<open>self.hazard_data\<close> is
  \<open>None\<close> the method loads it first; \<open>loaded\<close> is the frame that \<^verbatim>\<open>load_flood_hazard()\<close>
  produces then (it is drawn from the random generator). The loads are stored in \<open>self\<close>,
  so the state is returned with the result. An empty selection returns the empty
  dictionary (\<open>None\<close>); the final division of two Python floats raises
  \<^verbatim>\<open>ZeroDivisionError\<close> for an exposure of 0.
\<close>

definition calculate_expected_annual_impact ::
  "hazard_row list \<Rightarrow> climada_analyzer \<Rightarrow> string \<Rightarrow> (error + eai_result option) \<times> climada_analyzer" where
  "calculate_expected_annual_impact loaded self name =
     (let s1 = (case hazard_data self of None \<Rightarrow> self\<lparr>hazard_data := Some loaded\<rparr> | Some h \<Rightarrow> self);
          s2 = (case exposure_data s1 of
                  None \<Rightarrow> s1\<lparr>exposure_data := Some (get_exposure_litpop ''MYS'')\<rparr>
                | Some e \<Rightarrow> s1);
          hazard = (case hazard_data self of None \<Rightarrow> loaded | Some h \<Rightarrow> h);
          exposure = (case exposure_data self of None \<Rightarrow> get_exposure_litpop ''MYS'' | Some e \<Rightarrow> e);
          loc_hazard = filter (\<lambda>r. location r = name) hazard
      in if loc_hazard = [] then (Inr None, s2)
         else
           (let loc_exposure = location_exposure (total_exposure_usd exposure) name;
                (eai, impacts) = eai_loop loc_exposure loc_hazard (0, [])
            in if loc_exposure = 0 then (Inl ZeroDivisionError, s2)
               else (Inr (Some \<lparr>eai_location = name, expected_annual_impact_usd = eai,
                                 exposure_usd = loc_exposure, eai_ratio = eai / loc_exposure,
                                 return_period_impacts = impacts\<rparr>), s2)))"

text \<open>
  Test data: an analyzer whose hazard frame is the single row of a 100-year flood of
  0.9 m for the country (damage ratio 0.9 / 3 = 0.3) and whose total exposure is \<open>usd\<close>;
  and a frame with two rows for Selangor and one for Johor.
\<close>

definition scenario_C_analyzer :: "real \<Rightarrow> climada_analyzer" where
  "scenario_C_analyzer usd =
     \<lparr>hazard_data = Some [\<lparr>location = ''Malaysia (Country)'', latitude = 4.2105,
          longitude = 101.9758, location_type = ''country'', return_period = 100,
          flood_intensity_m = 0.9, annual_probability = 0.01, scenario = ''historical'',
          data_source = ''CLIMADA-simulated''\<rparr>],
      exposure_data = Some \<lparr>country = ''Malaysia'', country_code = ''MYS'',
          total_exposure_usd = usd, population = 33000000, flood_exposure_ratio = 0.15\<rparr>,
      use_isimip = False\<rparr>"

definition state_rows :: "hazard_row list" where
  "state_rows =
     [\<lparr>location = ''Selangor'', latitude = 3.0738, longitude = 101.5183,
       location_type = ''state'', return_period = 10, flood_intensity_m = 0.6,
       annual_probability = 0.1, scenario = ''historical'', data_source = ''CLIMADA-simulated''\<rparr>,
      \<lparr>location = ''Johor'', latitude = 1.4854, longitude = 103.7618,
       location_type = ''state'', return_period = 10, flood_intensity_m = 0.7,
       annual_probability = 0.1, scenario = ''historical'', data_source = ''CLIMADA-simulated''\<rparr>,
      \<lparr>location = ''Selangor'', latitude = 3.0738, longitude = 101.5183,
       location_type = ''state'', return_period = 100, flood_intensity_m = 6,
       annual_probability = 0.01, scenario = ''historical'', data_source = ''CLIMADA-simulated''\<rparr>]"

section \<open>backend/isimip\_probability.py and the GEV fit of the CLIMADA analyzer\<close>

type_synonym gev_ppf = "real \<Rightarrow> real \<Rightarrow> real \<Rightarrow> real \<Rightarrow> real"

record gev_params =
  shape :: real
  location_param :: real
  scale :: real
  ks_statistic :: real
  p_value :: real
  fit_quality :: string


record return_level_row =
  rl_return_period :: int
  return_level :: real
  rl_annual_probability :: real
  ci_lower :: real
  ci_upper :: real

text \<open>
  \<^verbatim>\<open>ISIMIPDataProcessor.calculate_return_levels(self, gev_params, return_periods)\<close>:
  the loop appends one row per return period, in the order supplied; a return period 0
  raises at \<^verbatim>\<open>1.0 / rp\<close>.
\<close>

fun calculate_return_levels :: "gev_ppf \<Rightarrow> gev_params \<Rightarrow> int list \<Rightarrow> error + return_level_row list" where
  "calculate_return_levels ppf gev [] = Inr []"
| "calculate_return_levels ppf gev (rp # rps) =
     (if rp = 0 then Inl ZeroDivisionError
      else
        (let exceedance_prob = 1 / real_of_int rp;
             non_exceedance_prob = 1 - exceedance_prob;
             level = ppf non_exceedance_prob (shape gev) (location_param gev) (scale gev);
             lower_bound = level * 0.8;
             upper_bound = level * 1.2;
             row = \<lparr>rl_return_period = rp, return_level = level,
                    rl_annual_probability = 1 / real_of_int rp,
                    ci_lower = lower_bound, ci_upper = upper_bound\<rparr>
         in case calculate_return_levels ppf gev rps of
              Inl e \<Rightarrow> Inl e
            | Inr rows \<Rightarrow> Inr (row # rows)))"



section \<open>flood\_damage\_library: depth-damage interpolation\<close>

text \<open>
  \<^verbatim>\<open>scipy.interpolate.interp1d(x, y, kind='linear')\<close> evaluated at one point. The
  library sorts the knots by \<open>x\<close> (a stable sort). Outside the range of the knots it
  raises \<^verbatim>\<open>ValueError\<close>, or returns the fill values when
  \<^verbatim>\<open>bounds_error=False, fill_value=(lo, hi)\<close> is given. Inside the range it evaluates
  \<^verbatim>\<open>numpy.interp\<close>: with \<open>j\<close> the last knot that is not above the point, the value
  is \<open>y j\<close> when \<open>j\<close> is the last knot of all or lies at the point, and
  \<open>y j + (y (j+1) - y j) / (x (j+1) - x j) * (x - x j)\<close> otherwise; \<open>interp_segments\<close>
  is this search on the sorted knots, for a point that is not below the first of them. A
  damage function is the list of its (depth, ratio) points.
\<close>

fun interp_segments :: "(real \<times> real) list \<Rightarrow> real \<Rightarrow> error + real" where
  "interp_segments [] x = Inl ValueError"
| "interp_segments [(x0, y0)] x = Inr y0"
| "interp_segments ((x0, y0) # (x1, y1) # ps) x =
     (if x1 \<le> x then interp_segments ((x1, y1) # ps) x
      else if x0 = x then Inr y0
      else Inr (y0 + (y1 - y0) / (x1 - x0) * (x - x0)))"

definition interp1d :: "(real \<times> real) list \<Rightarrow> (real \<times> real) option \<Rightarrow> real \<Rightarrow> error + real" where
  "interp1d points fill_value x =
     (case sort_key fst points of
        [] \<Rightarrow> Inl ValueError
      | p # ps \<Rightarrow>
          if x < fst p
          then (case fill_value of None \<Rightarrow> Inl ValueError | Some (fill_lo, fill_hi) \<Rightarrow> Inr fill_lo)
          else if fst (last (p # ps)) < x
          then (case fill_value of None \<Rightarrow> Inl ValueError | Some (fill_lo, fill_hi) \<Rightarrow> Inr fill_hi)
          else interp_segments (p # ps) x)"

text \<open>
  \<^verbatim>\<open>FloodDamageCalculator._interpolate_damage_ratio(self, damage_function, flood_depth)\<close>
\<close>

definition interpolate_damage_ratio :: "(real \<times> real) list \<Rightarrow> real \<Rightarrow> error + real" where
  "interpolate_damage_ratio damage_function flood_depth =
     (if length damage_function < 2 then Inl CalculationError
      else
        (let depths = map fst damage_function;
             ratios = map snd damage_function
         in if flood_depth \<le> hd depths then Inr (hd ratios)
            else if last depths \<le> flood_depth then Inr (last ratios)
            else interp1d damage_function None flood_depth))"

text \<open>
  \<^verbatim>\<open>EnhancedFloodDamageCalculator._get_damage_ratio(self, depth, building_type,
  country_code)\<close> over the table \<^verbatim>\<open>self.damage_functions\<close>.
\<close>

record damage_function_row =
  fn_building_type :: string
  fn_country_code :: string
  depth_m :: real
  fn_damage_ratio :: real

definition get_damage_ratio ::
  "damage_function_row list \<Rightarrow> real \<Rightarrow> string \<Rightarrow> string \<Rightarrow> error + real" where
  "get_damage_ratio damage_functions depth btype ccode =
     (let relevant_functions =
            filter (\<lambda>r. fn_building_type r = btype
                        \<and> fn_country_code r \<in> set [ccode, ''DEFAULT'']) damage_functions
      in if relevant_functions = [] then Inr (min 1 (depth * 0.3))
         else
           (let country_specific = filter (\<lambda>r. fn_country_code r = ccode) relevant_functions;
                relevant_functions =
                  (if country_specific \<noteq> [] then country_specific else relevant_functions);
                depths = map depth_m relevant_functions;
                ratios = map fn_damage_ratio relevant_functions
            in if length depths = 1 then Inr (hd ratios)
               else interp1d (zip depths ratios) (Some (hd ratios, last ratios)) depth))"

text \<open>Test data: parameters of a fit.\<close>

definition example_gev :: gev_params where
  "example_gev = \<lparr>shape = 0, location_param = 100, scale = 20, ks_statistic = 0.1,
                   p_value = 0.5, fit_quality = ''Good''\<rparr>"

text \<open>
  The (depth, ratio) points that \<^verbatim>\<open>_get_damage_ratio\<close> works on: the rows of the
  building type for the country when there are any, else those of the building type for
  the country or \<^verbatim>\<open>DEFAULT\<close>.
\<close>

definition selected_points :: "damage_function_row list \<Rightarrow> string \<Rightarrow> string \<Rightarrow> (real \<times> real) list" where
  "selected_points damage_functions btype ccode =
     (let relevant_functions =
            filter (\<lambda>r. fn_building_type r = btype
                        \<and> fn_country_code r \<in> set [ccode, ''DEFAULT'']) damage_functions;
          country_specific = filter (\<lambda>r. fn_country_code r = ccode) relevant_functions;
          relevant_functions =
            (if country_specific \<noteq> [] then country_specific else relevant_functions)
      in zip (map depth_m relevant_functions) (map fn_damage_ratio relevant_functions))"

text \<open>Test data: a table of damage functions.\<close>

definition example_table :: "damage_function_row list" where
  "example_table =
     [\<lparr>fn_building_type = ''residential'', fn_country_code = ''DEFAULT'', depth_m = 0,
       fn_damage_ratio = 0\<rparr>,
      \<lparr>fn_building_type = ''residential'', fn_country_code = ''US'', depth_m = 0,
       fn_damage_ratio = 0\<rparr>,
      \<lparr>fn_building_type = ''residential'', fn_country_code = ''US'', depth_m = 1,
       fn_damage_ratio = 1 / 2\<rparr>,
      \<lparr>fn_building_type = ''commercial'', fn_country_code = ''US'', depth_m = 1,
       fn_damage_ratio = 3 / 5\<rparr>,
      \<lparr>fn_building_type = ''residential'', fn_country_code = ''US'', depth_m = 2,
       fn_damage_ratio = 1\<rparr>,
      \<lparr>fn_building_type = ''residential'', fn_country_code = ''DEFAULT'', depth_m = 2,
       fn_damage_ratio = 3 / 5\<rparr>]"

section \<open>Event probability within a time window\<close>

lemma lower_flood: "lower ''flood'' = ''flood''"
  by code_simp

lemma lower_flod: "lower ''Flod'' = ''flod''"
  by code_simp

lemma calculate_event_probability_nonneg_window:
  assumes "0 \<le> time_window"
  shows "calculate_event_probability self event_type time_window =
           Finite (if total_days self = 0 then 0
                   else min (1 - (1 - real (recorded_count self event_type) / real (total_days self))
                                  ^ nat time_window) 1)"
  using assms by (simp add: calculate_event_probability_def Let_def power_int_def)

subsection \<open>Bounds on \<open>(70/73) ^ 365\<close> by repeated squaring\<close>

lemma power_bounds_sq:
  fixes x :: real
  assumes "l \<le> x ^ n" "x ^ n \<le> u" "0 \<le> l" "l' \<le> l * l" "u * u \<le> u'"
  shows "l' \<le> x ^ (2 * n) \<and> x ^ (2 * n) \<le> u'"
proof -
  have e: "x ^ (2 * n) = x ^ n * x ^ n"
    by (simp add: power2_eq_square power_mult mult.commute)
  have "l * l \<le> x ^ n * x ^ n"
    using assms by (intro mult_mono) auto
  moreover have "x ^ n * x ^ n \<le> u * u"
    using assms by (intro mult_mono) auto
  ultimately show ?thesis using assms e by linarith
qed

lemma power_bounds_sq_mult:
  fixes x :: real
  assumes "l \<le> x ^ n" "x ^ n \<le> u" "0 \<le> l" "0 \<le> x" "l' \<le> l * l * x" "u * u * x \<le> u'"
  shows "l' \<le> x ^ (2 * n + 1) \<and> x ^ (2 * n + 1) \<le> u'"
proof -
  have e: "x ^ (2 * n + 1) = x ^ n * x ^ n * x"
    by (simp add: power2_eq_square power_mult mult.commute)
  have a: "l * l \<le> x ^ n * x ^ n"
    using assms by (intro mult_mono) auto
  have b: "x ^ n * x ^ n \<le> u * u"
    using assms by (intro mult_mono) auto
  have "l * l * x \<le> x ^ n * x ^ n * x"
    using a assms by (intro mult_right_mono) auto
  moreover have "x ^ n * x ^ n * x \<le> u * u * x"
    using b assms by (intro mult_right_mono) auto
  ultimately show ?thesis using assms e by linarith
qed

lemma no_event_days_365:
  "22281306 / 10 ^ 14 \<le> (70 / 73 :: real) ^ 365 \<and> (70 / 73 :: real) ^ 365 \<le> 22281307 / 10 ^ 14"
proof -
  define x :: real where "x = 70 / 73"
  have x0: "0 \<le> x" by (simp add: x_def)
  have b1: "95890410958904 / 10 ^ 14 \<le> x ^ 1 \<and> x ^ 1 \<le> 95890410958905 / 10 ^ 14"
    by (simp add: x_def)
  have b2: "91949709138674 / 10 ^ 14 \<le> x ^ (2 * 1) \<and> x ^ (2 * 1) \<le> 91949709138677 / 10 ^ 14"
    by (rule power_bounds_sq [where l = "95890410958904 / 10 ^ 14" and u = "95890410958905 / 10 ^ 14"])
       (use b1 in simp_all)
  have b5: "81072935718913 / 10 ^ 14 \<le> x ^ (2 * 2 + 1) \<and> x ^ (2 * 2 + 1) \<le> 81072935718921 / 10 ^ 14"
    by (rule power_bounds_sq_mult [where l = "91949709138674 / 10 ^ 14" and u = "91949709138677 / 10 ^ 14"])
       (use b2 x0 in \<open>simp_all add: x_def\<close>)
  have b11: "63027049784357 / 10 ^ 14 \<le> x ^ (2 * 5 + 1) \<and> x ^ (2 * 5 + 1) \<le> 63027049784371 / 10 ^ 14"
    by (rule power_bounds_sq_mult [where l = "81072935718913 / 10 ^ 14" and u = "81072935718921 / 10 ^ 14"])
       (use b5 x0 in \<open>simp_all add: x_def\<close>)
  have b22: "39724090045198 / 10 ^ 14 \<le> x ^ (2 * 11) \<and> x ^ (2 * 11) \<le> 39724090045216 / 10 ^ 14"
    by (rule power_bounds_sq [where l = "63027049784357 / 10 ^ 14" and u = "63027049784371 / 10 ^ 14"])
       (use b11 in simp_all)
  have b45: "15131538780045 / 10 ^ 14 \<le> x ^ (2 * 22 + 1) \<and> x ^ (2 * 22 + 1) \<le> 15131538780060 / 10 ^ 14"
    by (rule power_bounds_sq_mult [where l = "39724090045198 / 10 ^ 14" and u = "39724090045216 / 10 ^ 14"])
       (use b22 x0 in \<open>simp_all add: x_def\<close>)
  have b91: "2195540083512 / 10 ^ 14 \<le> x ^ (2 * 45 + 1) \<and> x ^ (2 * 45 + 1) \<le> 2195540083517 / 10 ^ 14"
    by (rule power_bounds_sq_mult [where l = "15131538780045 / 10 ^ 14" and u = "15131538780060 / 10 ^ 14"])
       (use b45 x0 in \<open>simp_all add: x_def\<close>)
  have b182: "48203962583 / 10 ^ 14 \<le> x ^ (2 * 91) \<and> x ^ (2 * 91) \<le> 48203962584 / 10 ^ 14"
    by (rule power_bounds_sq [where l = "2195540083512 / 10 ^ 14" and u = "2195540083517 / 10 ^ 14"])
       (use b91 in simp_all)
  have b365: "22281306 / 10 ^ 14 \<le> x ^ (2 * 182 + 1) \<and> x ^ (2 * 182 + 1) \<le> 22281307 / 10 ^ 14"
    by (rule power_bounds_sq_mult [where l = "48203962583 / 10 ^ 14" and u = "48203962584 / 10 ^ 14"])
       (use b182 x0 in \<open>simp_all add: x_def\<close>)
  then show ?thesis by (simp add: x_def)
qed

lemma scenario_A_result:
  "calculate_event_probability
     \<lparr>historical_data = None, event_counts = [''flood'' \<mapsto> 150], total_days = 3650\<rparr>
     ''flood'' 365 = Finite (1 - (70 / 73) ^ 365)"
proof -
  have "0 \<le> (70 / 73 :: real) ^ 365" by simp
  then show ?thesis
    by (simp add: calculate_event_probability_nonneg_window recorded_count_def lower_flood)
qed

text \<open>
  Claim C3, as amended. For a window that is not negative the event probability is
  \<open>min (1 - (1 - daily_probability) ^ time_window) 1\<close> with
  \<open>daily_probability = event_count / total_days\<close>, and 0 when \<open>total_days = 0\<close>; a
  finite result is never above 1. For 150 events in 3650 days and a window of 365 days
  the result is \<open>1 - (1 - 150/3650) ^ 365\<close>, which lies between 0.99999977 and
  0.99999978.
\<close>

theorem event_probability_window_formula:
  "(0 \<le> time_window \<longrightarrow>
      calculate_event_probability self event_type time_window =
        Finite (if total_days self = 0 then 0
                else min (1 - (1 - real (recorded_count self event_type) / real (total_days self))
                               ^ nat time_window) 1))
   \<and> (\<forall>p. calculate_event_probability self event_type time_window = Finite p \<longrightarrow> p \<le> 1)
   \<and> calculate_event_probability
        \<lparr>historical_data = None, event_counts = [''flood'' \<mapsto> 150], total_days = 3650\<rparr>
        ''flood'' 365 = Finite (1 - (1 - 150 / 3650) ^ 365)
   \<and> 99999977 / 10 ^ 8 < 1 - (1 - 150 / 3650 :: real) ^ 365
   \<and> 1 - (1 - 150 / 3650 :: real) ^ 365 < 99999978 / 10 ^ 8"
proof (intro conjI)
  show "0 \<le> time_window \<longrightarrow>
      calculate_event_probability self event_type time_window =
        Finite (if total_days self = 0 then 0
                else min (1 - (1 - real (recorded_count self event_type) / real (total_days self))
                               ^ nat time_window) 1)"
    using calculate_event_probability_nonneg_window by blast
  show "\<forall>p. calculate_event_probability self event_type time_window = Finite p \<longrightarrow> p \<le> 1"
    by (auto simp: calculate_event_probability_def Let_def split: if_splits)
  have e: "(1 - 150 / 3650 :: real) = 70 / 73" by simp
  show "calculate_event_probability
        \<lparr>historical_data = None, event_counts = [''flood'' \<mapsto> 150], total_days = 3650\<rparr>
        ''flood'' 365 = Finite (1 - (1 - 150 / 3650) ^ 365)"
    unfolding e by (rule scenario_A_result)
  show "99999977 / 10 ^ 8 < 1 - (1 - 150 / 3650 :: real) ^ 365"
    unfolding e using no_event_days_365 by simp
  show "1 - (1 - 150 / 3650 :: real) ^ 365 < 99999978 / 10 ^ 8"
    unfolding e using no_event_days_365 by simp
qed

theorem event_probability_window_formula_witness:
  "(0::int) \<le> 3
   \<and> calculate_event_probability
        \<lparr>historical_data = None, event_counts = [''flood'' \<mapsto> 1], total_days = 2\<rparr> ''flood'' 3
      = Finite (7 / 8)
   \<and> (7 / 8 :: real) \<le> 1"
  using event_probability_window_formula
    [of 3 "\<lparr>historical_data = None, event_counts = [''flood'' \<mapsto> 1], total_days = 2\<rparr>" "''flood''",
     THEN conjunct1]
  by (simp add: recorded_count_def lower_flood power_one_over)

text \<open>
  Claim C3 as stated gives the value of the 150/3650/365 scenario as about 0.999996. The
  result of the code there is above 0.9999997: it differs from 0.999996 by more than
  0.0000037, and to six decimals it is 1.000000.
\<close>

theorem scenario_A_value_counterexample:
  "calculate_event_probability
     \<lparr>historical_data = None, event_counts = [''flood'' \<mapsto> 150], total_days = 3650\<rparr>
     ''flood'' 365 = Finite (1 - (70 / 73) ^ 365)
   \<and> 9999997 / 10 ^ 7 < 1 - (70 / 73 :: real) ^ 365
   \<and> 37 / 10 ^ 7 < \<bar>(1 - (70 / 73 :: real) ^ 365) - 999996 / 10 ^ 6\<bar>"
  using scenario_A_result no_event_days_365 by simp





text \<open>
  Claim C10. An event type with no recorded occurrences (its lower-cased name is not a
  key of \<open>event_counts\<close>, or its count is 0) has probability exactly 0 for every time
  window, and no error is raised: an unknown name and a zero count are not told apart.
\<close>

theorem unknown_event_type_has_probability_zero:
  assumes "event_counts self (lower event_type) = None
           \<or> event_counts self (lower event_type) = Some 0"
  shows "calculate_event_probability self event_type time_window = Finite 0"
  using assms by (auto simp: calculate_event_probability_def recorded_count_def Let_def)

theorem unknown_event_type_has_probability_zero_witness:
  "event_counts \<lparr>historical_data = None, event_counts = [''flood'' \<mapsto> 150], total_days = 3650\<rparr>
     (lower ''Flod'') = None
   \<and> calculate_event_probability
       \<lparr>historical_data = None, event_counts = [''flood'' \<mapsto> 150], total_days = 3650\<rparr> ''Flod'' 365
     = Finite 0"
  using unknown_event_type_has_probability_zero
    [of "\<lparr>historical_data = None, event_counts = [''flood'' \<mapsto> 150], total_days = 3650\<rparr>" "''Flod''" 365]
  by (simp add: lower_flod)

section \<open>Seasonal probability\<close>

lemma season_northeast: "season_months ''northeast_monsoon'' = Some [11, 12, 1, 2, 3]"
  by (simp add: season_months_def)

lemma lower_event_names:
  "lower ''heavy_rainfall'' = ''heavy_rainfall''"
  "lower ''extreme_rainfall'' = ''extreme_rainfall''"
  by code_simp+

lemma seasonal_general:
  assumes "historical_data self = Some df" and "has_date df"
    and "season_months season = Some months"
  shows "get_seasonal_probability self event_type season =
           Inr (let season_data = filter (\<lambda>r. date_month r \<in> set months) (frame_rows df)
                in if season_data = [] then 0
                   else real (season_event_count df event_type season_data)
                        / real (length season_data))"
  using assms by (simp add: get_seasonal_probability_def Let_def)

lemma recorded_count_rainfall_only:
  assumes "has_rainfall df" and "\<not> has_event_type df" and "frame_rows df \<noteq> []"
    and "event_type = ''heavy_rainfall'' \<or> event_type = ''extreme_rainfall'' \<or> event_type = ''flood''"
  shows "recorded_count (analyzer_init (Some df)) event_type
           = season_event_count df event_type (frame_rows df)"
    and "total_days (analyzer_init (Some df)) = length (frame_rows df)"
  using assms
  by (auto simp: analyzer_init_def process_historical_data_def recorded_count_def Let_def
        season_event_count_def lower_flood lower_event_names)

lemma rainfall_days_le: "rainfall_days t rs \<le> length rs"
  by (simp add: rainfall_days_def)

lemma season_event_count_le: "season_event_count df event_type rs \<le> length rs"
  by (simp add: season_event_count_def rainfall_days_le)

lemma one_day_window:
  assumes "has_rainfall df" and "\<not> has_event_type df" and "frame_rows df \<noteq> []"
    and "event_type = ''heavy_rainfall'' \<or> event_type = ''extreme_rainfall'' \<or> event_type = ''flood''"
  shows "calculate_event_probability (analyzer_init (Some df)) event_type 1
           = Finite (real (season_event_count df event_type (frame_rows df))
                     / real (length (frame_rows df)))"
proof -
  have "real (season_event_count df event_type (frame_rows df)) / real (length (frame_rows df)) \<le> 1"
    using season_event_count_le [of df event_type "frame_rows df"] assms(3) by simp
  then show ?thesis
    using assms recorded_count_rainfall_only [OF assms]
    by (simp add: calculate_event_probability_nonneg_window)
qed

lemma winter_analyzer_data:
  "historical_data (analyzer_init (Some winter_frame)) = Some winter_frame"
  by (simp add: analyzer_init_def process_historical_data_def winter_frame_def Let_def)

text \<open>
  Claim C9, as amended. For a frame with a date column and a known season, the seasonal
  probability is the event count of the rows whose month lies in the season (the days that
  reach the rainfall threshold of the event type) divided by the number of those rows, and
  0 when there is none; the method takes no time window. For a frame with a rainfall
  column and no event-type column and for the three rainfall event types, this quotient is
  what \<open>calculate_event_probability\<close> returns on the season's rows alone at a window
  of one day.
\<close>

theorem seasonal_probability_is_in_season_frequency:
  assumes "historical_data self = Some df" and "has_date df"
    and "season_months season = Some months"
    and "season_data = filter (\<lambda>r. date_month r \<in> set months) (frame_rows df)"
  shows "get_seasonal_probability self event_type season =
           Inr (if season_data = [] then 0
                else real (season_event_count df event_type season_data) / real (length season_data))
         \<and> (has_rainfall df \<and> \<not> has_event_type df
              \<and> (event_type = ''heavy_rainfall'' \<or> event_type = ''extreme_rainfall''
                   \<or> event_type = ''flood'') \<longrightarrow>
             calculate_event_probability
               (analyzer_init (Some (df\<lparr>frame_rows := season_data\<rparr>))) event_type 1
             = Finite (if season_data = [] then 0
                       else real (season_event_count df event_type season_data)
                            / real (length season_data)))"
proof (intro conjI impI)
  show "get_seasonal_probability self event_type season =
           Inr (if season_data = [] then 0
                else real (season_event_count df event_type season_data) / real (length season_data))"
    using seasonal_general [OF assms(1-3), of event_type] assms(4) by (simp add: Let_def)
next
  assume a: "has_rainfall df \<and> \<not> has_event_type df
              \<and> (event_type = ''heavy_rainfall'' \<or> event_type = ''extreme_rainfall''
                   \<or> event_type = ''flood'')"
  let ?df = "df\<lparr>frame_rows := season_data\<rparr>"
  show "calculate_event_probability (analyzer_init (Some ?df)) event_type 1
             = Finite (if season_data = [] then 0
                       else real (season_event_count df event_type season_data)
                            / real (length season_data))"
  proof (cases "season_data = []")
    case True
    then have "total_days (analyzer_init (Some ?df)) = 0"
      by (simp add: analyzer_init_def process_historical_data_def)
    then show ?thesis using True by (simp add: calculate_event_probability_def)
  next
    case False
    have "calculate_event_probability (analyzer_init (Some ?df)) event_type 1
           = Finite (real (season_event_count ?df event_type (frame_rows ?df))
                     / real (length (frame_rows ?df)))"
      by (rule one_day_window) (use a False in simp_all)
    then show ?thesis using False by (simp add: season_event_count_def)
  qed
qed

theorem seasonal_probability_is_in_season_frequency_witness:
  "get_seasonal_probability (analyzer_init (Some winter_frame)) ''flood'' ''northeast_monsoon''
     = Inr (1 / 2)
   \<and> calculate_event_probability (analyzer_init (Some winter_frame)) ''flood'' 1 = Finite (1 / 2)"
proof -
  have d: "has_date winter_frame" by (simp add: winter_frame_def)
  have f: "frame_rows winter_frame
             = filter (\<lambda>r. date_month r \<in> set [11, 12, 1, 2, 3]) (frame_rows winter_frame)"
    by (simp add: winter_frame_def)
  have c: "season_event_count winter_frame ''flood'' (frame_rows winter_frame) = 1"
    by (simp add: winter_frame_def season_event_count_def rainfall_days_def
          threshold_flood_rainfall_def)
  have r: "has_rainfall winter_frame" "\<not> has_event_type winter_frame"
    "frame_rows winter_frame \<noteq> []" "length (frame_rows winter_frame) = 2"
    "winter_frame\<lparr>frame_rows := frame_rows winter_frame\<rparr> = winter_frame"
    by (simp_all add: winter_frame_def)
  show ?thesis
    using seasonal_probability_is_in_season_frequency
      [OF winter_analyzer_data d season_northeast f, of "''flood''"]
    by (simp add: c r)
qed

text \<open>
  Claim C9 as stated has the seasonal variant apply the window formula of the unrestricted
  variant. On the two January days (one flood day), every row lies in the season, the
  seasonal probability is 1/2, and the window formula at the default window of 365 days
  gives \<open>1 - (1/2) ^ 365\<close>, which is larger.
\<close>

theorem seasonal_probability_counterexample:
  "get_seasonal_probability (analyzer_init (Some winter_frame)) ''flood'' ''northeast_monsoon''
     = Inr (1 / 2)
   \<and> filter (\<lambda>r. date_month r \<in> set [11, 12, 1, 2, 3]) (frame_rows winter_frame)
       = frame_rows winter_frame
   \<and> calculate_event_probability (analyzer_init (Some winter_frame)) ''flood'' 365
       = Finite (1 - (1 / 2) ^ 365)
   \<and> (1 / 2 :: real) < 1 - (1 / 2) ^ 365"
proof (intro conjI)
  show "get_seasonal_probability (analyzer_init (Some winter_frame)) ''flood'' ''northeast_monsoon''
          = Inr (1 / 2)"
    by (simp add: get_seasonal_probability_def winter_analyzer_data season_northeast)
       (simp add: winter_frame_def season_event_count_def rainfall_days_def
          threshold_flood_rainfall_def)
  show "filter (\<lambda>r. date_month r \<in> set [11, 12, 1, 2, 3]) (frame_rows winter_frame)
          = frame_rows winter_frame"
    by (simp add: winter_frame_def)
  have p: "(1 / 2 :: real) ^ 365 \<le> (1 / 2) ^ 2"
    by (rule power_decreasing) simp_all
  have rc: "recorded_count (analyzer_init (Some winter_frame)) ''flood'' = 1"
    "total_days (analyzer_init (Some winter_frame)) = 2"
    by (simp_all add: analyzer_init_def process_historical_data_def winter_frame_def Let_def
          recorded_count_def lower_flood rainfall_days_def threshold_flood_rainfall_def)
  have "0 \<le> (1 / 2 :: real) ^ 365" by simp
  then show "calculate_event_probability (analyzer_init (Some winter_frame)) ''flood'' 365
               = Finite (1 - (1 / 2) ^ 365)"
    by (simp add: calculate_event_probability_nonneg_window rc)
  show "(1 / 2 :: real) < 1 - (1 / 2) ^ 365"
    using p by (simp add: power2_eq_square)
qed

section \<open>Expected annual impact\<close>

lemma eai_loop_eq:
  "eai_loop ex rows (eai, impacts) =
     (eai + (\<Sum>r\<leftarrow>rows. annual_probability r * (ex * min 1 (flood_intensity_m r / 3))),
      impacts @ map (impact_of ex) rows)"
proof (induction rows arbitrary: eai impacts)
  case Nil
  then show ?case by simp
next
  case (Cons row rows)
  then show ?case by (simp add: Let_def impact_of_def add.assoc)
qed

lemma calculate_expected_annual_impact_rows:
  assumes "hazard = (case hazard_data self of None \<Rightarrow> loaded | Some h \<Rightarrow> h)"
    and "ex = location_exposure
               (total_exposure_usd (case exposure_data self of
                                      None \<Rightarrow> get_exposure_litpop ''MYS'' | Some e \<Rightarrow> e)) name"
    and "rows = filter (\<lambda>r. location r = name) hazard"
    and "rows \<noteq> []"
  shows "fst (calculate_expected_annual_impact loaded self name) =
           (if ex = 0 then Inl ZeroDivisionError
            else Inr (Some
              \<lparr>eai_location = name,
               expected_annual_impact_usd =
                 (\<Sum>r\<leftarrow>rows. annual_probability r * (ex * min 1 (flood_intensity_m r / 3))),
               exposure_usd = ex,
               eai_ratio =
                 (\<Sum>r\<leftarrow>rows. annual_probability r * (ex * min 1 (flood_intensity_m r / 3))) / ex,
               return_period_impacts = map (impact_of ex) rows\<rparr>))"
  using assms by (simp add: calculate_expected_annual_impact_def Let_def eai_loop_eq)

lemma scenario_C_result:
  "fst (calculate_expected_annual_impact [] (scenario_C_analyzer usd) ''Malaysia (Country)'') =
     (if usd = 0 then Inl ZeroDivisionError
      else Inr (Some
        \<lparr>eai_location = ''Malaysia (Country)'', expected_annual_impact_usd = 0.01 * (usd * 0.3),
         exposure_usd = usd, eai_ratio = 0.01 * (usd * 0.3) / usd,
         return_period_impacts =
           [\<lparr>imp_return_period = 100, probability = 0.01, imp_flood_intensity_m = 0.9,
             damage_ratio = 0.3, impact_usd = usd * 0.3\<rparr>]\<rparr>))"
  by (simp add: calculate_expected_annual_impact_def scenario_C_analyzer_def Let_def
      location_exposure_def impact_of_def)

text \<open>
  Claim C1. When the hazard frame has rows for the location (and the exposure is not 0,
  so that the ratio exists), the expected annual impact is the sum over exactly those rows
  of \<open>annual_probability * (exposure * damage_ratio)\<close>, where the damage ratio of a row is
  \<open>min 1 (flood_intensity_m / 3)\<close>; every row keeps its return period, probability,
  intensity, ratio and impact in the breakdown, in order; and \<open>eai_ratio\<close> is the impact
  divided by the exposure. For an exposure of \<open>10^9\<close> and the single row with probability
  0.01 and damage ratio 0.3 the impact is 3,000,000 and the ratio 0.003.
\<close>

theorem expected_annual_impact_is_sum_over_rows:
  assumes "hazard = (case hazard_data self of None \<Rightarrow> loaded | Some h \<Rightarrow> h)"
    and "ex = location_exposure
               (total_exposure_usd (case exposure_data self of
                                      None \<Rightarrow> get_exposure_litpop ''MYS'' | Some e \<Rightarrow> e)) name"
    and "rows = filter (\<lambda>r. location r = name) hazard"
    and "rows \<noteq> []" and "ex \<noteq> 0"
  shows "fst (calculate_expected_annual_impact loaded self name) =
           Inr (Some
              \<lparr>eai_location = name,
               expected_annual_impact_usd =
                 (\<Sum>r\<leftarrow>rows. annual_probability r * (ex * min 1 (flood_intensity_m r / 3))),
               exposure_usd = ex,
               eai_ratio =
                 (\<Sum>r\<leftarrow>rows. annual_probability r * (ex * min 1 (flood_intensity_m r / 3))) / ex,
               return_period_impacts =
                 map (\<lambda>r. \<lparr>imp_return_period = return_period r,
                            probability = annual_probability r,
                            imp_flood_intensity_m = flood_intensity_m r,
                            damage_ratio = min 1 (flood_intensity_m r / 3),
                            impact_usd = ex * min 1 (flood_intensity_m r / 3)\<rparr>) rows\<rparr>)
         \<and> fst (calculate_expected_annual_impact [] (scenario_C_analyzer 1000000000)
                  ''Malaysia (Country)'') =
             Inr (Some
               \<lparr>eai_location = ''Malaysia (Country)'', expected_annual_impact_usd = 3000000,
                exposure_usd = 1000000000, eai_ratio = 0.003,
                return_period_impacts =
                  [\<lparr>imp_return_period = 100, probability = 0.01, imp_flood_intensity_m = 0.9,
                    damage_ratio = 0.3, impact_usd = 300000000\<rparr>]\<rparr>)"
proof
  have "map (impact_of ex) rows =
          map (\<lambda>r. \<lparr>imp_return_period = return_period r,
                            probability = annual_probability r,
                            imp_flood_intensity_m = flood_intensity_m r,
                            damage_ratio = min 1 (flood_intensity_m r / 3),
                            impact_usd = ex * min 1 (flood_intensity_m r / 3)\<rparr>) rows"
    by (simp add: impact_of_def Let_def)
  then show "fst (calculate_expected_annual_impact loaded self name) =
           Inr (Some
              \<lparr>eai_location = name,
               expected_annual_impact_usd =
                 (\<Sum>r\<leftarrow>rows. annual_probability r * (ex * min 1 (flood_intensity_m r / 3))),
               exposure_usd = ex,
               eai_ratio =
                 (\<Sum>r\<leftarrow>rows. annual_probability r * (ex * min 1 (flood_intensity_m r / 3))) / ex,
               return_period_impacts =
                 map (\<lambda>r. \<lparr>imp_return_period = return_period r,
                            probability = annual_probability r,
                            imp_flood_intensity_m = flood_intensity_m r,
                            damage_ratio = min 1 (flood_intensity_m r / 3),
                            impact_usd = ex * min 1 (flood_intensity_m r / 3)\<rparr>) rows\<rparr>)"
    using calculate_expected_annual_impact_rows [OF assms(1-4)] assms(5) by simp
  show "fst (calculate_expected_annual_impact [] (scenario_C_analyzer 1000000000)
                  ''Malaysia (Country)'') =
             Inr (Some
               \<lparr>eai_location = ''Malaysia (Country)'', expected_annual_impact_usd = 3000000,
                exposure_usd = 1000000000, eai_ratio = 0.003,
                return_period_impacts =
                  [\<lparr>imp_return_period = 100, probability = 0.01, imp_flood_intensity_m = 0.9,
                    damage_ratio = 0.3, impact_usd = 300000000\<rparr>]\<rparr>)"
    by (simp add: scenario_C_result)
qed

text \<open>
  The witness: Selangor in a frame that also holds a row of Johor, with the default
  exposure (0.28 of 350 billion USD). The 10-year row (0.6 m) contributes
  \<open>0.1 * (9.8e10 * 0.2)\<close> and the 100-year row (6 m, ratio capped at 1)
  \<open>0.01 * 9.8e10\<close>.
\<close>

theorem expected_annual_impact_is_sum_over_rows_witness:
  "filter (\<lambda>r. location r = ''Selangor'') state_rows \<noteq> []
   \<and> location_exposure 350000000000 ''Selangor'' \<noteq> 0
   \<and> fst (calculate_expected_annual_impact state_rows
            \<lparr>hazard_data = None, exposure_data = None, use_isimip = False\<rparr> ''Selangor'') =
       Inr (Some
         \<lparr>eai_location = ''Selangor'', expected_annual_impact_usd = 2940000000,
          exposure_usd = 98000000000, eai_ratio = 0.03,
          return_period_impacts =
            [\<lparr>imp_return_period = 10, probability = 0.1, imp_flood_intensity_m = 0.6,
              damage_ratio = 0.2, impact_usd = 19600000000\<rparr>,
             \<lparr>imp_return_period = 100, probability = 0.01, imp_flood_intensity_m = 6,
              damage_ratio = 1, impact_usd = 98000000000\<rparr>]\<rparr>)"
proof -
  have e: "location_exposure
             (total_exposure_usd (case exposure_data
                 \<lparr>hazard_data = None, exposure_data = None, use_isimip = False\<rparr> of
                    None \<Rightarrow> get_exposure_litpop ''MYS'' | Some e \<Rightarrow> e)) ''Selangor'' = 98000000000"
    by (simp add: location_exposure_def state_exposure_ratio_def get_exposure_litpop_def)
  have h: "state_rows = (case hazard_data
             \<lparr>hazard_data = None, exposure_data = None, use_isimip = False\<rparr> of
               None \<Rightarrow> state_rows | Some h \<Rightarrow> h)"
    by simp
  have r: "[state_rows ! 0, state_rows ! 2] = filter (\<lambda>r. location r = ''Selangor'') state_rows"
    by (simp add: state_rows_def)
  have n: "[state_rows ! 0, state_rows ! 2] \<noteq> []" by simp
  have z: "(98000000000 :: real) \<noteq> 0" by simp
  show ?thesis
    using expected_annual_impact_is_sum_over_rows [OF h e [symmetric] r n z, THEN conjunct1]
    by (simp add: state_rows_def location_exposure_def state_exposure_ratio_def)
qed

text \<open>
  Claim C6, as amended. The calculation makes no check of the exposure. With rows for the
  location, an exposure that is not 0 (positive or negative) gives a result whose
  \<open>eai_ratio\<close> is the impact divided by the exposure; an exposure of 0 reaches the
  division and raises \<^verbatim>\<open>ZeroDivisionError\<close>.
\<close>

theorem eai_ratio_is_impact_over_exposure:
  assumes "hazard = (case hazard_data self of None \<Rightarrow> loaded | Some h \<Rightarrow> h)"
    and "ex = location_exposure
               (total_exposure_usd (case exposure_data self of
                                      None \<Rightarrow> get_exposure_litpop ''MYS'' | Some e \<Rightarrow> e)) name"
    and "filter (\<lambda>r. location r = name) hazard \<noteq> []"
  shows "(ex \<noteq> 0 \<longrightarrow>
            (\<exists>r. fst (calculate_expected_annual_impact loaded self name) = Inr (Some r)
                  \<and> exposure_usd r = ex
                  \<and> eai_ratio r = expected_annual_impact_usd r / ex))
         \<and> (ex = 0 \<longrightarrow>
              fst (calculate_expected_annual_impact loaded self name) = Inl ZeroDivisionError)"
  using calculate_expected_annual_impact_rows [OF assms(1,2) refl assms(3)] by simp

theorem eai_ratio_is_impact_over_exposure_witness:
  "(\<exists>r. fst (calculate_expected_annual_impact [] (scenario_C_analyzer 1000000000)
              ''Malaysia (Country)'') = Inr (Some r)
        \<and> exposure_usd r = 1000000000
        \<and> eai_ratio r = expected_annual_impact_usd r / 1000000000)
   \<and> fst (calculate_expected_annual_impact [] (scenario_C_analyzer 0) ''Malaysia (Country)'')
       = Inl ZeroDivisionError"
proof -
  have h: "\<And>usd. the (hazard_data (scenario_C_analyzer usd))
             = (case hazard_data (scenario_C_analyzer usd) of None \<Rightarrow> [] | Some h \<Rightarrow> h)"
    by (simp add: scenario_C_analyzer_def)
  have e: "\<And>usd. usd = location_exposure
             (total_exposure_usd (case exposure_data (scenario_C_analyzer usd) of
                 None \<Rightarrow> get_exposure_litpop ''MYS'' | Some e \<Rightarrow> e)) ''Malaysia (Country)''"
    by (simp add: scenario_C_analyzer_def location_exposure_def)
  have n: "\<And>usd. filter (\<lambda>r. location r = ''Malaysia (Country)'')
             (the (hazard_data (scenario_C_analyzer usd))) \<noteq> []"
    by (simp add: scenario_C_analyzer_def)
  show ?thesis
    using eai_ratio_is_impact_over_exposure [OF h e n, of 1000000000]
      eai_ratio_is_impact_over_exposure [OF h e n, of 0]
    by simp
qed

text \<open>
  Claim C6 as stated has every exposure at or below 0 fail with a ZeroExposureError. With
  a total exposure of \<open>- 10^9\<close> the calculation returns a result (impact -3,000,000,
  ratio 0.003); with 0 it fails in the division itself.
\<close>

theorem eai_nonpositive_exposure_counterexample:
  "fst (calculate_expected_annual_impact [] (scenario_C_analyzer (- 1000000000))
          ''Malaysia (Country)'') =
     Inr (Some
       \<lparr>eai_location = ''Malaysia (Country)'', expected_annual_impact_usd = - 3000000,
        exposure_usd = - 1000000000, eai_ratio = 0.003,
        return_period_impacts =
          [\<lparr>imp_return_period = 100, probability = 0.01, imp_flood_intensity_m = 0.9,
            damage_ratio = 0.3, impact_usd = - 300000000\<rparr>]\<rparr>)
   \<and> fst (calculate_expected_annual_impact [] (scenario_C_analyzer 0) ''Malaysia (Country)'')
       = Inl ZeroDivisionError"
  by (simp add: scenario_C_result)

section \<open>Scenario scaling of the simulated hazard curve\<close>

lemma simulated_intensity_rcp85:
  "simulated_intensity ''rcp85'' name loc_type rp z
     = 1.5 * simulated_intensity ''historical'' name loc_type rp z"
  by (simp add: simulated_intensity_def scenario_factor_def Let_def)

lemma hazard_entry_rcp85:
  "location (hazard_entry ''rcp85'' loc rp z) = location (hazard_entry ''historical'' loc rp z)"
  "return_period (hazard_entry ''rcp85'' loc rp z) = return_period (hazard_entry ''historical'' loc rp z)"
  "flood_intensity_m (hazard_entry ''historical'' loc rp z)
     \<le> flood_intensity_m (hazard_entry ''rcp85'' loc rp z)"
  "flood_intensity_m (hazard_entry ''rcp85'' loc rp z)
     \<le> 1.5 * flood_intensity_m (hazard_entry ''historical'' loc rp z)"
  "1 / 10 < flood_intensity_m (hazard_entry ''historical'' loc rp z) \<Longrightarrow>
     flood_intensity_m (hazard_entry ''rcp85'' loc rp z)
       = 1.5 * flood_intensity_m (hazard_entry ''historical'' loc rp z)"
  by (auto simp: hazard_entry_def simulated_intensity_rcp85 split: prod.splits)

lemma get_flood_hazard_malaysia_nth:
  assumes "get_flood_hazard_malaysia noise scen rps = Inr rows" and "k < length rows"
  shows "length rows = length locations * length rps"
    and "rows ! k = hazard_entry scen (fst (List.product locations rps ! k))
                      (snd (List.product locations rps ! k)) (noise k)"
  using assms
  by (auto simp: get_flood_hazard_malaysia_def nth_enumerate_eq split: if_splits prod.splits)

lemma hazard_rows_10:
  "get_flood_hazard_malaysia noise scen [10] =
     Inr (map (\<lambda>(k, loc). hazard_entry scen loc 10 (noise k)) (enumerate 0 locations))"
  by (simp add: get_flood_hazard_malaysia_def locations_def)

lemma intensity_10:
  "flood_intensity_m (hazard_entry scen (name, lat, lon, loc_type) 10 z)
     = max (1 / 10) (location_adjusted name loc_type (1 / 2 + z) * scenario_factor scen)"
  by (simp add: hazard_entry_def simulated_intensity_def Let_def)

text \<open>
  Claim C7, as amended. Let the historical and the rcp85 table be built for the same
  return periods from the same random draws. Row by row they hold the same location and
  return period, the rcp85 intensity lies between the historical intensity and 1.5 times
  it, and wherever the historical intensity is above the floor of 0.1 m the rcp85
  intensity is exactly 1.5 times the historical one.
\<close>

theorem rcp85_intensity_scales_historical:
  assumes "get_flood_hazard_malaysia noise ''historical'' rps = Inr hist"
    and "get_flood_hazard_malaysia noise ''rcp85'' rps = Inr fut"
    and "k < length hist"
  shows "length fut = length hist
         \<and> location (fut ! k) = location (hist ! k)
         \<and> return_period (fut ! k) = return_period (hist ! k)
         \<and> flood_intensity_m (hist ! k) \<le> flood_intensity_m (fut ! k)
         \<and> flood_intensity_m (fut ! k) \<le> 1.5 * flood_intensity_m (hist ! k)
         \<and> (1 / 10 < flood_intensity_m (hist ! k) \<longrightarrow>
              flood_intensity_m (fut ! k) = 1.5 * flood_intensity_m (hist ! k))"
proof -
  have l: "length fut = length hist"
    using get_flood_hazard_malaysia_nth(1) [OF assms(1,3)] assms(2)
    by (auto simp: get_flood_hazard_malaysia_def split: if_splits)
  then have k: "k < length fut" using assms(3) by simp
  show ?thesis
    unfolding get_flood_hazard_malaysia_nth(2) [OF assms(1,3)]
      get_flood_hazard_malaysia_nth(2) [OF assms(2) k]
    using l hazard_entry_rcp85 by blast
qed

text \<open>
  The witness: no perturbation, the 10-year return period, and the second row
  (Selangor): 0.5 * 1.10 = 0.55 m historically and 0.825 m under rcp85.
\<close>

theorem rcp85_intensity_scales_historical_witness:
  "\<exists>hist fut.
     get_flood_hazard_malaysia (\<lambda>k. 0) ''historical'' [10] = Inr hist
     \<and> get_flood_hazard_malaysia (\<lambda>k. 0) ''rcp85'' [10] = Inr fut
     \<and> 1 < length hist
     \<and> location (hist ! 1) = ''Selangor'' \<and> location (fut ! 1) = ''Selangor''
     \<and> flood_intensity_m (hist ! 1) = 11 / 20
     \<and> flood_intensity_m (fut ! 1) = 33 / 40"
proof -
  define hist where
    "hist = map (\<lambda>(k, loc). hazard_entry ''historical'' loc 10 ((\<lambda>k. 0) k)) (enumerate 0 locations)"
  define fut where
    "fut = map (\<lambda>(k, loc). hazard_entry ''rcp85'' loc 10 ((\<lambda>k. 0) k)) (enumerate 0 locations)"
  have h: "get_flood_hazard_malaysia (\<lambda>k. 0) ''historical'' [10] = Inr hist"
    unfolding hist_def by (rule hazard_rows_10)
  have f: "get_flood_hazard_malaysia (\<lambda>k. 0) ''rcp85'' [10] = Inr fut"
    unfolding fut_def by (rule hazard_rows_10)
  have n: "1 < length hist" by (simp add: hist_def locations_def)
  have v: "flood_intensity_m (hist ! 1) = 11 / 20" "location (hist ! 1) = ''Selangor''"
    by (simp_all add: hist_def locations_def nth_enumerate_eq intensity_10
          location_adjusted_def scenario_factor_def)
      (simp add: hazard_entry_def)
  show ?thesis
    using rcp85_intensity_scales_historical [OF h f n] h f n v by simp
qed

text \<open>
  Claim C7 as stated holds for every location and return period. With the same draw of
  -0.6 for every row and the 10-year return period, the intensity before the floor is
  negative for every location under both scenarios, so every row of both tables holds
  the floor 0.1 and none of the rcp85 rows holds 0.15.
\<close>

theorem rcp85_intensity_floor_counterexample:
  "(case get_flood_hazard_malaysia (\<lambda>k. - 3 / 5) ''historical'' [10] of
      Inl e \<Rightarrow> [] | Inr rows \<Rightarrow> map flood_intensity_m rows) = replicate 10 (1 / 10)
   \<and> (case get_flood_hazard_malaysia (\<lambda>k. - 3 / 5) ''rcp85'' [10] of
      Inl e \<Rightarrow> [] | Inr rows \<Rightarrow> map flood_intensity_m rows) = replicate 10 (1 / 10)
   \<and> (1 / 10 :: real) \<noteq> 1.5 * (1 / 10)"
  by (simp add: hazard_rows_10 locations_def intensity_10 location_adjusted_def
      scenario_factor_def enumerate_eq_zip upt_rec numeral_eq_Suc)

section \<open>GEV fit and return levels\<close>

lemma calculate_return_levels_rows:
  "0 \<notin> set rps \<Longrightarrow>
   calculate_return_levels ppf gev rps =
     Inr (map (\<lambda>T. \<lparr>rl_return_period = T,
      return_level = ppf (1 - 1 / real_of_int T) (shape gev) (location_param gev) (scale gev),
      rl_annual_probability = 1 / real_of_int T,
      ci_lower = 0.8 * ppf (1 - 1 / real_of_int T) (shape gev) (location_param gev) (scale gev),
      ci_upper = 1.2 * ppf (1 - 1 / real_of_int T) (shape gev) (location_param gev) (scale gev)\<rparr>) rps)"
  by (induction rps) (simp_all add: Let_def)

lemma inverse_period_antimono:
  fixes T1 T2 :: int
  assumes "0 < T1" "T1 < T2"
  shows "1 / real_of_int T2 < 1 / real_of_int T1"
  using assms by (simp add: frac_less2)

lemma probabilities_strictly_decreasing:
  assumes "\<forall>T\<in>set rps. 0 < T" and "sorted_wrt (<) rps"
  shows "sorted_wrt (>) (map (\<lambda>T. 1 / real_of_int T) rps)"
  using assms
  by (induction rps) (auto simp: inverse_period_antimono)

text \<open>
  Claim C2. For positive return periods, \<open>calculate_return_levels\<close> returns one row
  per requested period \<open>T\<close>, in the order supplied, whose level is the quantile function
  at \<open>1 - 1/T\<close> with the fitted shape, location and scale, whose bounds are 0.8 and 1.2
  times the level, and whose annual probability is \<open>1/T\<close>. Of two rows, the one with the
  larger return period has the strictly smaller annual probability; for periods supplied in
  ascending order the probabilities are strictly decreasing down the table.
\<close>

theorem return_levels_follow_quantile_function:
  assumes "\<forall>T\<in>set rps. 0 < T"
  shows "\<exists>rows. calculate_return_levels ppf gev rps = Inr rows
           \<and> map rl_return_period rows = rps
           \<and> (\<forall>r\<in>set rows.
                 return_level r = ppf (1 - 1 / real_of_int (rl_return_period r))
                                     (shape gev) (location_param gev) (scale gev)
                 \<and> ci_lower r = 0.8 * return_level r
                 \<and> ci_upper r = 1.2 * return_level r
                 \<and> rl_annual_probability r = 1 / real_of_int (rl_return_period r))
           \<and> (\<forall>r1\<in>set rows. \<forall>r2\<in>set rows.
                 rl_return_period r1 < rl_return_period r2 \<longrightarrow>
                 rl_annual_probability r2 < rl_annual_probability r1)
           \<and> (sorted_wrt (<) rps \<longrightarrow> sorted_wrt (>) (map rl_annual_probability rows))"
proof -
  have z: "0 \<notin> set rps" using assms by auto
  let ?rows = "map (\<lambda>T. \<lparr>rl_return_period = T,
      return_level = ppf (1 - 1 / real_of_int T) (shape gev) (location_param gev) (scale gev),
      rl_annual_probability = 1 / real_of_int T,
      ci_lower = 0.8 * ppf (1 - 1 / real_of_int T) (shape gev) (location_param gev) (scale gev),
      ci_upper = 1.2 * ppf (1 - 1 / real_of_int T) (shape gev) (location_param gev) (scale gev)\<rparr>) rps"
  have a: "calculate_return_levels ppf gev rps = Inr ?rows"
    by (rule calculate_return_levels_rows [OF z])
  have b: "map rl_return_period ?rows = rps"
    by (simp add: comp_def)
  have c: "\<forall>r\<in>set ?rows.
                 return_level r = ppf (1 - 1 / real_of_int (rl_return_period r))
                                     (shape gev) (location_param gev) (scale gev)
                 \<and> ci_lower r = 0.8 * return_level r
                 \<and> ci_upper r = 1.2 * return_level r
                 \<and> rl_annual_probability r = 1 / real_of_int (rl_return_period r)"
    by auto
  have d: "\<forall>r1\<in>set ?rows. \<forall>r2\<in>set ?rows.
                 rl_return_period r1 < rl_return_period r2 \<longrightarrow>
                 rl_annual_probability r2 < rl_annual_probability r1"
    using assms by (auto simp: inverse_period_antimono)
  have e: "sorted_wrt (<) rps \<longrightarrow> sorted_wrt (>) (map rl_annual_probability ?rows)"
    using probabilities_strictly_decreasing [OF assms] by (simp add: comp_def)
  show ?thesis using a b c d e by blast
qed

text \<open>
  The witness: return periods 10 and 100 with a stand-in quantile function
  \<open>loc + scale * q\<close>; the levels are 100 + 20 * 0.9 and 100 + 20 * 0.99.
\<close>

theorem return_levels_follow_quantile_function_witness:
  "\<exists>rows. calculate_return_levels (\<lambda>q c loc scl. loc + scl * q) example_gev [10, 100] = Inr rows
     \<and> map rl_return_period rows = [10, 100]
     \<and> map return_level rows = [118, 1198 / 10]
     \<and> map rl_annual_probability rows = [1 / 10, 1 / 100]
     \<and> sorted_wrt (>) (map rl_annual_probability rows)"
proof -
  have p: "\<forall>T\<in>set [10, 100 :: int]. 0 < T" by simp
  have s: "sorted_wrt (<) [10, 100 :: int]" by simp
  obtain rows where r:
    "calculate_return_levels (\<lambda>q c loc scl. loc + scl * q) example_gev [10, 100] = Inr rows"
    "map rl_return_period rows = [10, 100]"
    "\<forall>r\<in>set rows.
        return_level r = location_param example_gev + scale example_gev
                            * (1 - 1 / real_of_int (rl_return_period r))
        \<and> ci_lower r = 0.8 * return_level r
        \<and> ci_upper r = 1.2 * return_level r
        \<and> rl_annual_probability r = 1 / real_of_int (rl_return_period r)"
    "sorted_wrt (>) (map rl_annual_probability rows)"
    using return_levels_follow_quantile_function
      [OF p, of "\<lambda>q c loc scl. loc + scl * q" example_gev] s
    by auto
  from r(2) obtain a b where ab: "rows = [a, b]" "rl_return_period a = 10" "rl_return_period b = 100"
    by (auto simp: map_eq_Cons_conv)
  have "map return_level rows = [118, 1198 / 10]"
    using r(3) ab by (simp add: example_gev_def)
  moreover have "map rl_annual_probability rows = [1 / 10, 1 / 100]"
    using r(3) ab by simp
  ultimately show ?thesis using r(1,2,4) by (intro exI [of _ rows]) simp
qed








section \<open>Depth-damage interpolation\<close>


lemma interp_segments_at_first:
  assumes "sorted_wrt (<) (map fst ((x0, y0) # ps))"
  shows "interp_segments ((x0, y0) # ps) x0 = Inr y0"
proof (cases ps)
  case Nil
  then show ?thesis by simp
next
  case (Cons p ps')
  obtain x1 y1 where p: "p = (x1, y1)" by (cases p)
  have "x0 < x1" using assms Cons p by simp
  then show ?thesis using Cons p by simp
qed

lemma interp_segments_bracket:
  assumes "sorted_wrt (<) (map fst ps)" and "Suc i < length ps"
    and "fst (ps ! i) \<le> x" and "x \<le> fst (ps ! Suc i)"
  shows "interp_segments ps x =
           Inr (snd (ps ! i) + (snd (ps ! Suc i) - snd (ps ! i))
                                / (fst (ps ! Suc i) - fst (ps ! i)) * (x - fst (ps ! i)))"
  using assms
proof (induction ps x arbitrary: i rule: interp_segments.induct)
  case (3 x0 y0 x1 y1 ps x)
  let ?tl = "(x1, y1) # ps"
  have s: "x0 < x1" "sorted_wrt (<) (map fst ?tl)"
    using "3.prems"(1) by auto
  show ?case
  proof (cases i)
    case 0
    then have b: "x0 \<le> x" "x \<le> x1" using "3.prems" by simp_all
    show ?thesis
    proof (cases "x1 \<le> x")
      case True
      then have "x = x1" using b by simp
      then show ?thesis
        using 0 s(1) interp_segments_at_first [OF s(2)] by simp
    next
      case False
      then show ?thesis using 0 s(1) by simp
    qed
  next
    case (Suc j)
    have j: "Suc j < length ?tl" "fst (?tl ! j) \<le> x" "x \<le> fst (?tl ! Suc j)"
      using "3.prems" Suc by simp_all
    have "map fst ?tl ! 0 \<le> map fst ?tl ! j"
      using strict_sorted_imp_sorted [OF s(2)] j(1) by (intro sorted_nth_mono) simp_all
    moreover have "map fst ?tl ! j = fst (?tl ! j)"
      using j(1) by (intro nth_map) simp
    ultimately have "x1 \<le> x" using j(2) by simp
    then have "interp_segments ((x0, y0) # ?tl) x = interp_segments ?tl x"
      by simp
    also have "\<dots> = Inr (snd (?tl ! j) + (snd (?tl ! Suc j) - snd (?tl ! j))
                                / (fst (?tl ! Suc j) - fst (?tl ! j)) * (x - fst (?tl ! j)))"
      using "3.IH" [of j] \<open>x1 \<le> x\<close> s(2) j by simp
    finally show ?thesis using Suc by simp
  qed
qed simp_all

lemma strictly_sorted_nth_less:
  fixes ps :: "(real \<times> real) list"
  assumes "sorted_wrt (<) (map fst ps)" and "i < j" and "j < length ps"
  shows "fst (ps ! i) < fst (ps ! j)"
proof -
  have "map fst ps ! i < map fst ps ! j"
    using sorted_wrt_nth_less [OF assms(1), of i j] assms(2,3) by simp
  moreover have "i < length ps" using assms(2,3) by simp
  ultimately show ?thesis using assms(3) by simp
qed

lemma strictly_sorted_hd_last:
  fixes ps :: "(real \<times> real) list"
  assumes "sorted_wrt (<) (map fst ps)" and "i < length ps"
  shows "fst (hd ps) \<le> fst (ps ! i)" and "fst (ps ! i) \<le> fst (last ps)"
proof -
  have ne: "ps \<noteq> []" using assms(2) by auto
  have s: "sorted (map fst ps)" using assms(1) by (rule strict_sorted_imp_sorted)
  have "map fst ps ! 0 \<le> map fst ps ! i"
    using s assms(2) by (intro sorted_nth_mono) simp_all
  then show "fst (hd ps) \<le> fst (ps ! i)"
    using ne assms(2) by (simp add: hd_conv_nth)
  have "map fst ps ! i \<le> map fst ps ! (length ps - 1)"
    using s assms(2) by (intro sorted_nth_mono) simp_all
  then show "fst (ps ! i) \<le> fst (last ps)"
    using ne assms(2) by (simp add: last_conv_nth)
qed

lemma interp1d_bracket:
  assumes "sorted_wrt (<) (map fst ps)" and "Suc i < length ps"
    and "fst (ps ! i) \<le> x" and "x \<le> fst (ps ! Suc i)"
  shows "interp1d ps fill x =
           Inr (snd (ps ! i) + (snd (ps ! Suc i) - snd (ps ! i))
                                / (fst (ps ! Suc i) - fst (ps ! i)) * (x - fst (ps ! i)))"
proof -
  have srt: "sort_key fst ps = ps"
    using assms(1) by (intro sort_key_id_if_sorted strict_sorted_imp_sorted)
  obtain p ps' where c: "ps = p # ps'" using assms(2) by (cases ps) auto
  have lo: "fst (hd ps) \<le> x"
    using strictly_sorted_hd_last(1) [OF assms(1), of i] assms(2,3) by simp
  have hi: "x \<le> fst (last ps)"
    using strictly_sorted_hd_last(2) [OF assms(1), of "Suc i"] assms(2,4) by simp
  have "interp1d ps fill x = interp_segments ps x"
    using lo hi unfolding interp1d_def srt by (simp add: c)
  then show ?thesis
    using interp_segments_bracket [OF assms] by simp
qed

lemma interp1d_fill:
  assumes "sorted_wrt (<) (map fst ps)" and "ps \<noteq> []"
  shows "x < fst (hd ps) \<Longrightarrow> interp1d ps (Some (lo, hi)) x = Inr lo"
    and "fst (last ps) < x \<Longrightarrow> interp1d ps (Some (lo, hi)) x = Inr hi"
proof -
  have srt: "sort_key fst ps = ps"
    using assms(1) by (intro sort_key_id_if_sorted strict_sorted_imp_sorted)
  obtain p ps' where c: "ps = p # ps'" using assms(2) by (cases ps) auto
  have hl: "fst (hd ps) \<le> fst (last ps)"
    using strictly_sorted_hd_last(2) [OF assms(1), of 0] assms(2) by (simp add: hd_conv_nth)
  show "x < fst (hd ps) \<Longrightarrow> interp1d ps (Some (lo, hi)) x = Inr lo"
    unfolding interp1d_def srt by (simp add: c)
  show "fst (last ps) < x \<Longrightarrow> interp1d ps (Some (lo, hi)) x = Inr hi"
    using hl unfolding interp1d_def srt by (auto simp: c)
qed


lemma zip_columns:
  "zip (map f rs) (map g rs) = map (\<lambda>r. (f r, g r)) rs"
  by (induction rs) simp_all

lemma get_damage_ratio_selected:
  "get_damage_ratio table depth btype ccode =
     (let f = selected_points table btype ccode
      in if f = [] then Inr (min 1 (depth * 0.3))
         else if length f = 1 then Inr (snd (hd f))
         else interp1d f (Some (snd (hd f), snd (last f))) depth)"
proof -
  define rel where
    "rel = filter (\<lambda>r. fn_building_type r = btype
                        \<and> fn_country_code r \<in> set [ccode, ''DEFAULT'']) table"
  define sel where
    "sel = (if filter (\<lambda>r. fn_country_code r = ccode) rel \<noteq> []
            then filter (\<lambda>r. fn_country_code r = ccode) rel else rel)"
  have e: "sel = [] \<longleftrightarrow> rel = []"
    by (auto simp: sel_def)
  have s: "selected_points table btype ccode = map (\<lambda>r. (depth_m r, fn_damage_ratio r)) sel"
    unfolding selected_points_def Let_def zip_columns sel_def rel_def by simp
  have g: "get_damage_ratio table depth btype ccode =
             (if rel = [] then Inr (min 1 (depth * 0.3))
              else if length (map depth_m sel) = 1 then Inr (hd (map fn_damage_ratio sel))
              else interp1d (zip (map depth_m sel) (map fn_damage_ratio sel))
                     (Some (hd (map fn_damage_ratio sel), last (map fn_damage_ratio sel))) depth)"
    unfolding get_damage_ratio_def Let_def sel_def rel_def by simp
  show ?thesis
    unfolding g s Let_def using e by (simp add: zip_columns hd_map last_map)
qed

lemma interp1d_at_ends:
  fixes ps :: "(real \<times> real) list"
  assumes "sorted_wrt (<) (map fst ps)" and "2 \<le> length ps"
  shows "interp1d ps fill (fst (hd ps)) = Inr (snd (hd ps))"
    and "interp1d ps fill (fst (last ps)) = Inr (snd (last ps))"
proof -
  have l: "Suc 0 < length ps" "Suc (length ps - 2) < length ps" "Suc (length ps - 2) = length ps - 1"
    using assms(2) by simp_all
  have ne: "ps \<noteq> []" using assms(2) by auto
  have h: "hd ps = ps ! 0" using ne by (simp add: hd_conv_nth)
  have t: "last ps = ps ! Suc (length ps - 2)" using ne l(3) by (simp add: last_conv_nth)
  have a: "fst (ps ! 0) < fst (ps ! Suc 0)"
    using strictly_sorted_nth_less [OF assms(1), of 0 "Suc 0"] l(1) by simp
  show "interp1d ps fill (fst (hd ps)) = Inr (snd (hd ps))"
    unfolding h using interp1d_bracket [OF assms(1) l(1), of "fst (ps ! 0)" fill] a by simp
  have b: "fst (ps ! (length ps - 2)) < fst (ps ! Suc (length ps - 2))"
    using strictly_sorted_nth_less [OF assms(1), of "length ps - 2" "Suc (length ps - 2)"] l(2)
    by simp
  show "interp1d ps fill (fst (last ps)) = Inr (snd (last ps))"
    unfolding t
    using interp1d_bracket [OF assms(1) l(2), of "fst (ps ! Suc (length ps - 2))" fill] b
    by simp
qed

lemma interpolate_damage_ratio_sorted:
  assumes "sorted_wrt (<) (map fst f)" and "2 \<le> length f"
  shows "d \<le> fst (hd f) \<Longrightarrow> interpolate_damage_ratio f d = Inr (snd (hd f))"
    and "fst (last f) \<le> d \<Longrightarrow> interpolate_damage_ratio f d = Inr (snd (last f))"
    and "Suc i < length f \<Longrightarrow> fst (f ! i) \<le> d \<Longrightarrow> d \<le> fst (f ! Suc i) \<Longrightarrow>
         interpolate_damage_ratio f d =
           Inr (snd (f ! i) + (snd (f ! Suc i) - snd (f ! i))
                               / (fst (f ! Suc i) - fst (f ! i)) * (d - fst (f ! i)))"
proof -
  have ne: "f \<noteq> []" using assms(2) by auto
  have hl: "fst (hd f) < fst (last f)"
    using strictly_sorted_nth_less [OF assms(1), of 0 "length f - 1"] ne assms(2)
    by (simp add: hd_conv_nth last_conv_nth)
  have n2: "\<not> length f < 2" using assms(2) by simp
  show at_low: "d \<le> fst (hd f) \<Longrightarrow> interpolate_damage_ratio f d = Inr (snd (hd f))"
    using ne n2 by (simp add: interpolate_damage_ratio_def Let_def hd_map)
  show at_high: "fst (last f) \<le> d \<Longrightarrow> interpolate_damage_ratio f d = Inr (snd (last f))"
    using ne n2 hl by (simp add: interpolate_damage_ratio_def Let_def hd_map last_map)
  assume b: "Suc i < length f" "fst (f ! i) \<le> d" "d \<le> fst (f ! Suc i)"
  have lo: "fst (hd f) \<le> d"
    using strictly_sorted_hd_last(1) [OF assms(1), of i] b by simp
  have hi: "d \<le> fst (last f)"
    using strictly_sorted_hd_last(2) [OF assms(1), of "Suc i"] b by simp
  have v: "interp1d f None d =
           Inr (snd (f ! i) + (snd (f ! Suc i) - snd (f ! i))
                               / (fst (f ! Suc i) - fst (f ! i)) * (d - fst (f ! i)))"
    by (rule interp1d_bracket [OF assms(1) b])
  consider (low) "d = fst (hd f)" | (high) "d = fst (last f)"
    | (inside) "fst (hd f) < d" "d < fst (last f)"
    using lo hi by linarith
  then show "interpolate_damage_ratio f d =
           Inr (snd (f ! i) + (snd (f ! Suc i) - snd (f ! i))
                               / (fst (f ! Suc i) - fst (f ! i)) * (d - fst (f ! i)))"
  proof cases
    case low
    then show ?thesis
      using at_low v interp1d_at_ends(1) [OF assms, of None] by simp
  next
    case high
    then show ?thesis
      using at_high v interp1d_at_ends(2) [OF assms, of None] by simp
  next
    case inside
    then show ?thesis
      using ne n2 v by (simp add: interpolate_damage_ratio_def Let_def hd_map last_map)
  qed
qed

lemma get_damage_ratio_sorted:
  assumes "selected_points table btype ccode = f"
    and "sorted_wrt (<) (map fst f)" and "2 \<le> length f"
  shows "d \<le> fst (hd f) \<Longrightarrow> get_damage_ratio table d btype ccode = Inr (snd (hd f))"
    and "fst (last f) \<le> d \<Longrightarrow> get_damage_ratio table d btype ccode = Inr (snd (last f))"
    and "Suc i < length f \<Longrightarrow> fst (f ! i) \<le> d \<Longrightarrow> d \<le> fst (f ! Suc i) \<Longrightarrow>
         get_damage_ratio table d btype ccode =
           Inr (snd (f ! i) + (snd (f ! Suc i) - snd (f ! i))
                               / (fst (f ! Suc i) - fst (f ! i)) * (d - fst (f ! i)))"
proof -
  have ne: "f \<noteq> []" "length f \<noteq> 1" using assms(3) by auto
  have g: "get_damage_ratio table d btype ccode = interp1d f (Some (snd (hd f), snd (last f))) d"
    using ne by (simp add: get_damage_ratio_selected assms(1) Let_def)
  show "d \<le> fst (hd f) \<Longrightarrow> get_damage_ratio table d btype ccode = Inr (snd (hd f))"
    using interp1d_fill(1) [OF assms(2) ne(1), of d] interp1d_at_ends(1) [OF assms(2,3)]
    unfolding g by (cases "d = fst (hd f)") auto
  show "fst (last f) \<le> d \<Longrightarrow> get_damage_ratio table d btype ccode = Inr (snd (last f))"
    using interp1d_fill(2) [OF assms(2) ne(1), of d] interp1d_at_ends(2) [OF assms(2,3)]
    unfolding g by (cases "d = fst (last f)") auto
  show "Suc i < length f \<Longrightarrow> fst (f ! i) \<le> d \<Longrightarrow> d \<le> fst (f ! Suc i) \<Longrightarrow>
         get_damage_ratio table d btype ccode =
           Inr (snd (f ! i) + (snd (f ! Suc i) - snd (f ! i))
                               / (fst (f ! Suc i) - fst (f ! i)) * (d - fst (f ! i)))"
    unfolding g by (rule interp1d_bracket [OF assms(2)])
qed

lemma example_table_selected:
  "selected_points example_table ''residential'' ''US'' = [(0, 0), (1, 1 / 2), (2, 1)]"
  by (simp add: selected_points_def example_table_def)

text \<open>
  Claim C4, as amended. Let \<open>f\<close> be a damage function of at least two points whose depths
  increase strictly (for the enhanced calculator: the points it selects from its table).
  At or below the first depth both interpolators return the first ratio, at or above the
  last depth the last ratio, and between two neighbouring points the value of the straight
  line through them. With fewer than two points \<open>_interpolate_damage_ratio\<close> fails with
  \<open>CalculationError\<close>, while \<open>_get_damage_ratio\<close> returns the ratio of a single selected
  point and \<open>min 1 (0.3 * depth)\<close> when it selects none. The points (0, 0), (1, 0.5),
  (2, 1) give 0.75 at depth 1.5.
\<close>

theorem damage_ratio_clamps_and_interpolates:
  assumes "sorted_wrt (<) (map fst f)" and "2 \<le> length f"
    and "selected_points table btype ccode = f"
  shows "(d \<le> fst (hd f) \<longrightarrow>
            interpolate_damage_ratio f d = Inr (snd (hd f))
            \<and> get_damage_ratio table d btype ccode = Inr (snd (hd f)))
         \<and> (fst (last f) \<le> d \<longrightarrow>
            interpolate_damage_ratio f d = Inr (snd (last f))
            \<and> get_damage_ratio table d btype ccode = Inr (snd (last f)))
         \<and> (\<forall>i. Suc i < length f \<and> fst (f ! i) \<le> d \<and> d \<le> fst (f ! Suc i) \<longrightarrow>
            interpolate_damage_ratio f d =
              Inr (snd (f ! i) + (snd (f ! Suc i) - snd (f ! i))
                                  / (fst (f ! Suc i) - fst (f ! i)) * (d - fst (f ! i)))
            \<and> get_damage_ratio table d btype ccode =
              Inr (snd (f ! i) + (snd (f ! Suc i) - snd (f ! i))
                                  / (fst (f ! Suc i) - fst (f ! i)) * (d - fst (f ! i))))
         \<and> (\<forall>g. length g < 2 \<longrightarrow> interpolate_damage_ratio g d = Inl CalculationError)
         \<and> (\<forall>t b c p. selected_points t b c = [p] \<longrightarrow> get_damage_ratio t d b c = Inr (snd p))
         \<and> (\<forall>t b c. selected_points t b c = [] \<longrightarrow>
               get_damage_ratio t d b c = Inr (min 1 (d * 0.3)))
         \<and> interpolate_damage_ratio [(0, 0), (1, 0.5), (2, 1)] 1.5 = Inr 0.75"
proof (intro conjI impI allI)
  show "interpolate_damage_ratio [(0, 0), (1, 0.5), (2, 1)] 1.5 = Inr 0.75"
    by (simp add: interpolate_damage_ratio_def interp1d_def)
next
  fix g :: "(real \<times> real) list" assume "length g < 2"
  then show "interpolate_damage_ratio g d = Inl CalculationError"
    by (simp add: interpolate_damage_ratio_def)
next
  fix t b c p assume "selected_points t b c = [p]"
  then show "get_damage_ratio t d b c = Inr (snd p)"
    by (simp add: get_damage_ratio_selected)
next
  fix t b c assume "selected_points t b c = []"
  then show "get_damage_ratio t d b c = Inr (min 1 (d * 0.3))"
    by (simp add: get_damage_ratio_selected)
next
  fix i assume "Suc i < length f \<and> fst (f ! i) \<le> d \<and> d \<le> fst (f ! Suc i)"
  then have b: "Suc i < length f" "fst (f ! i) \<le> d" "d \<le> fst (f ! Suc i)" by simp_all
  show "interpolate_damage_ratio f d =
              Inr (snd (f ! i) + (snd (f ! Suc i) - snd (f ! i))
                                  / (fst (f ! Suc i) - fst (f ! i)) * (d - fst (f ! i)))"
    by (rule interpolate_damage_ratio_sorted(3) [OF assms(1,2) b])
  show "get_damage_ratio table d btype ccode =
              Inr (snd (f ! i) + (snd (f ! Suc i) - snd (f ! i))
                                  / (fst (f ! Suc i) - fst (f ! i)) * (d - fst (f ! i)))"
    by (rule get_damage_ratio_sorted(3) [OF assms(3,1,2) b])
qed (simp_all add: interpolate_damage_ratio_sorted [OF assms(1,2)]
       get_damage_ratio_sorted [OF assms(3,1,2)])

text \<open>
  The witness: a table with three points for residential buildings in the US and two
  default points; the US points are selected.
\<close>

theorem damage_ratio_clamps_and_interpolates_witness:
  "interpolate_damage_ratio [(0, 0), (1, 1 / 2), (2, 1)] (- 1) = Inr 0
   \<and> get_damage_ratio example_table (- 1) ''residential'' ''US'' = Inr 0
   \<and> interpolate_damage_ratio [(0, 0), (1, 1 / 2), (2, 1)] 7 = Inr 1
   \<and> get_damage_ratio example_table 7 ''residential'' ''US'' = Inr 1
   \<and> interpolate_damage_ratio [(0, 0), (1, 1 / 2), (2, 1)] (3 / 2) = Inr (3 / 4)
   \<and> get_damage_ratio example_table (3 / 2) ''residential'' ''US'' = Inr (3 / 4)
   \<and> interpolate_damage_ratio [(1, 1 / 2)] (3 / 2) = Inl CalculationError"
proof -
  have s: "sorted_wrt (<) (map fst [(0, 0), (1, 1 / 2), (2, 1 :: real)] :: real list)" by simp
  have l: "2 \<le> length [(0, 0), (1, 1 / 2), (2, 1 :: real) :: real \<times> real]" by simp
  note t = damage_ratio_clamps_and_interpolates [OF s l example_table_selected]
  have a: "interpolate_damage_ratio [(0, 0), (1, 1 / 2), (2, 1)] (- 1) = Inr 0
           \<and> get_damage_ratio example_table (- 1) ''residential'' ''US'' = Inr 0"
    using t [of "- 1", THEN conjunct1] by simp
  have b: "interpolate_damage_ratio [(0, 0), (1, 1 / 2), (2, 1)] 7 = Inr 1
           \<and> get_damage_ratio example_table 7 ''residential'' ''US'' = Inr 1"
    using t [of 7, THEN conjunct2, THEN conjunct1] by simp
  have c: "interpolate_damage_ratio [(0, 0), (1, 1 / 2), (2, 1)] (3 / 2) = Inr (3 / 4)
           \<and> get_damage_ratio example_table (3 / 2) ''residential'' ''US'' = Inr (3 / 4)"
    using t [of "3 / 2", THEN conjunct2, THEN conjunct2, THEN conjunct1, rule_format, of 1]
    by simp
  have e: "interpolate_damage_ratio [(1, 1 / 2)] (3 / 2) = Inl CalculationError"
    using t [of "3 / 2", THEN conjunct2, THEN conjunct2, THEN conjunct2, THEN conjunct1,
             rule_format, of "[(1, 1 / 2)]"]
    by simp
  show ?thesis using a b c e by simp
qed

text \<open>
  Claim C4 as stated has every function of fewer than two points fail with a typed error.
  In the enhanced calculator a table with a single matching point returns that point's
  ratio at any depth, and a table with no matching point returns \<open>min 1 (0.3 * depth)\<close>.
\<close>

theorem single_point_function_counterexample:
  "get_damage_ratio
     [\<lparr>fn_building_type = ''residential'', fn_country_code = ''US'', depth_m = 1,
       fn_damage_ratio = 1 / 2\<rparr>] 3 ''residential'' ''US'' = Inr (1 / 2)
   \<and> get_damage_ratio [] 2 ''residential'' ''US'' = Inr (3 / 5)"
  by (simp add: get_damage_ratio_def)

end
